theory Spec2Isabelle
  imports Main
begin

section \<open>The tabbed text editor of app.py\<close>

text \<open>
  The class \<open>TextEditor\<close> keeps its documents in a ttk notebook and a dictionary
  \<open>text_contents\<close> from the name of each text widget to the hash of the text that was
  last loaded or saved. The model below keeps what the methods read and write:
  the notebook's tabs in order, the selected tab, the dictionary, the counter by which Tk
  names new widgets, and a trace of what the methods print or ask.
\<close>

subsection \<open>Exceptions and observable effects\<close>

text \<open>
  The exceptions the methods can meet. \<open>OSError\<close> stands for every exception of
  \<open>open\<close> that the \<open>except (AttributeError, FileNotFoundError)\<close> clauses do not
  name (a directory, a missing permission); \<open>UnicodeError\<close> is the UnicodeEncodeError
  of \<open>file.write\<close> and the UnicodeDecodeError of \<open>file.read\<close>.
\<close>

datatype py_error =
  KeyError | IndexError | AttributeError | FileNotFoundError | OSError | UnicodeError

text \<open>
  What a method shows or prints: a line on standard output (\<open>print\<close>), the yes/no
  dialog of \<open>messagebox.askyesno\<close> (title, message) and the information dialog of
  \<open>messagebox.showinfo\<close> (title, message).
\<close>

datatype event = Print string | AskYesNo string string | ShowInfo string string

subsection \<open>Tabs and the editor\<close>

text \<open>
  A tab of the notebook: \<open>widget\<close> numbers the tab container Tk created (the n-th frame
  of the notebook; its text area \<open>str(text_area)\<close> is the dictionary key, one per
  container), \<open>label\<close> is the tab's \<open>text\<close> option as the notebook holds it, and
  \<open>buffer\<close> is what \<open>text_area.get('1.0', 'end-1c')\<close> returns.
\<close>

record tab =
  widget :: nat
  label :: string
  buffer :: string

record editor =
  tabs :: "tab list"
  current :: nat
  text_contents :: "nat \<rightharpoonup> int"
  next_id :: nat
  alive :: bool
  trace :: "event list"

subsection \<open>The file layer\<close>

text \<open>
  The machine the process runs on:
  \<^item> \<open>files\<close>: what is stored under each path, as the file holds it (encoded);
  \<^item> \<open>read_faults\<close>, \<open>write_faults\<close>: the paths on which \<open>open(path, 'r')\<close> and
    \<open>open(path, 'w')\<close> raise whatever the files are (a missing directory, a directory, a
    missing permission; for reading, a failing device too), each with its exception;
  \<^item> \<open>late_faults\<close>: the paths on which writing or closing the file raises after
    \<open>open\<close> has returned (a full disk), each with its exception and how much of the
    encoded text has reached the file by then;
  \<^item> \<open>sinks\<close>: the paths that take a write and keep nothing of it (a device such as
    \<open>/dev/null\<close>);
  \<^item> \<open>encode\<close>, \<open>decode\<close>: the platform's default text encoding, which the two
    \<open>open\<close> calls use since they name none; \<open>None\<close> where the codec raises;
  \<^item> \<open>linesep\<close>: \<open>os.linesep\<close>.
\<close>

record world =
  files :: "string \<rightharpoonup> string"
  read_faults :: "string \<rightharpoonup> py_error"
  write_faults :: "string \<rightharpoonup> py_error"
  late_faults :: "string \<rightharpoonup> py_error \<times> nat"
  sinks :: "string set"
  encode :: "string \<Rightarrow> string option"
  decode :: "string \<Rightarrow> string option"
  linesep :: string

abbreviation LF :: char where "LF \<equiv> CHR 0x0A"
abbreviation CR :: char where "CR \<equiv> CHR 0x0D"

text \<open>
  \<open>open(path, 'w')\<close> is a text file with \<open>newline=None\<close>: on writing, every line feed
  becomes \<open>os.linesep\<close>, and the result is encoded.
\<close>

definition write_newlines :: "string \<Rightarrow> string \<Rightarrow> string" where
  "write_newlines sep s = concat (map (\<lambda>c. if c = LF then sep else [c]) s)"

text \<open>
  \<open>open(path, 'r')\<close> is a text file with \<open>newline=None\<close>: on reading, the file is
  decoded, universal newlines are on, and each of CR LF, CR and LF comes back as one line
  feed.
\<close>

fun universal_newlines :: "string \<Rightarrow> string" where
  "universal_newlines [] = []"
| "universal_newlines [c] = (if c = CR then [LF] else [c])"
| "universal_newlines (c # d # ds) =
     (if c = CR then
        (if d = LF then LF # universal_newlines ds else LF # universal_newlines (d # ds))
      else c # universal_newlines (d # ds))"

text \<open>What \<open>path\<close> holds once \<open>stored\<close> was written to it: a sink keeps nothing.\<close>

definition store :: "world \<Rightarrow> string \<Rightarrow> string \<Rightarrow> world" where
  "store w path stored =
     (if path \<in> sinks w then w else w\<lparr>files := (files w)(path \<mapsto> stored)\<rparr>)"

text \<open>
  \<open>with open(file_path, 'w') as file: file.write(content)\<close>: the machine afterwards, and
  the exception raised if any. The empty path (a cancelled dialog) and a path whose
  directory is missing raise FileNotFoundError in \<open>open\<close>, before anything is touched.
  Once \<open>open\<close> has returned the file is empty; \<open>file.write\<close> translates the line
  feeds and encodes the whole text before any of it reaches the file, so a text the
  encoding cannot represent raises and leaves the file empty; a failure after that
  leaves the part of the encoded text that was written.
\<close>

definition py_write :: "world \<Rightarrow> string \<Rightarrow> string \<Rightarrow> world \<times> py_error option" where
  "py_write w path content =
     (if path = [] then (w, Some FileNotFoundError)
      else case write_faults w path of
        Some e \<Rightarrow> (w, Some e)
      | None \<Rightarrow>
          (case encode w (write_newlines (linesep w) content) of
             None \<Rightarrow> (store w path [], Some UnicodeError)
           | Some stored \<Rightarrow>
               (case late_faults w path of
                  Some (e, n) \<Rightarrow> (store w path (take n stored), Some e)
                | None \<Rightarrow> (store w path stored, None))))"

text \<open>\<open>with open(file_path, 'r') as file: content = file.read()\<close>.\<close>

definition py_read :: "world \<Rightarrow> string \<Rightarrow> py_error + string" where
  "py_read w path =
     (if path = [] then Inl FileNotFoundError
      else case read_faults w path of
        Some e \<Rightarrow> Inl e
      | None \<Rightarrow>
          (case files w path of
             None \<Rightarrow> Inl FileNotFoundError
           | Some stored \<Rightarrow>
               (case decode w stored of
                  None \<Rightarrow> Inl UnicodeError
                | Some text \<Rightarrow> Inr (universal_newlines text))))"

text \<open>
  The encoding gives a text back: encoding it succeeds, and decoding the result is the
  text again.
\<close>

definition round_trips :: "world \<Rightarrow> string \<Rightarrow> bool" where
  "round_trips w text =
     (case encode w text of None \<Rightarrow> False | Some stored \<Rightarrow> decode w stored = Some text)"

text \<open>\<open>os.path.basename\<close> (posixpath): what follows the last slash.\<close>

definition basename :: "string \<Rightarrow> string" where
  "basename p = rev (takeWhile (\<lambda>c. c \<noteq> CHR ''/'') (rev p))"

text \<open>The exceptions both \<open>except\<close> clauses name.\<close>

definition caught :: "py_error \<Rightarrow> bool" where
  "caught e = (e = AttributeError \<or> e = FileNotFoundError)"

subsection \<open>The methods\<close>

text \<open>
  Python's \<open>hash\<close> on strings is a parameter \<open>h\<close> of every method that calls it: it is
  fixed within one run of the process and nothing else is known of it.
\<close>

text \<open>
  \<open>create_file\<close>: a new container with a text area holding \<open>content\<close> is added at the
  end of the notebook under \<open>title\<close> and selected, and the hash of \<open>content\<close> is stored
  under the text area's name.
\<close>

definition create_file :: "(string \<Rightarrow> int) \<Rightarrow> string \<Rightarrow> string \<Rightarrow> editor \<Rightarrow> editor" where
  "create_file h content title s =
     s\<lparr>tabs := tabs s @ [\<lparr>widget = next_id s, label = title, buffer = content\<rparr>],
       current := length (tabs s),
       text_contents := (text_contents s)(next_id s \<mapsto> h content),
       next_id := Suc (next_id s)\<rparr>"

text \<open>
  \<open>get_text_area\<close>: the text area of the selected tab. With no tab selected
  \<open>notebook.select()\<close> is the empty name, \<open>nametowidget\<close> answers the root window, its
  first child is the main frame, and the caller's \<open>text_area.get\<close> raises
  AttributeError.
\<close>

definition get_text_area :: "editor \<Rightarrow> py_error + tab" where
  "get_text_area s =
     (if current s < length (tabs s) then Inr (tabs s ! current s) else Inl AttributeError)"

text \<open>
  The comparison \<open>hash(content) != self.text_contents[str(text_area)]\<close>, which three
  methods make; a missing key raises KeyError.
\<close>

definition hash_differs :: "(string \<Rightarrow> int) \<Rightarrow> (nat \<rightharpoonup> int) \<Rightarrow> tab \<Rightarrow> py_error + bool" where
  "hash_differs h tc t =
     (case tc (widget t) of None \<Rightarrow> Inl KeyError | Some fp \<Rightarrow> Inr (h (buffer t) \<noteq> fp))"

definition is_current_tab_unsaved :: "(string \<Rightarrow> int) \<Rightarrow> editor \<Rightarrow> py_error + bool" where
  "is_current_tab_unsaved h s =
     (case get_text_area s of
        Inl e \<Rightarrow> Inl e
      | Inr t \<Rightarrow> hash_differs h (text_contents s) t)"

definition gate :: event where
  "gate = AskYesNo ''Unsaved Changes'' ''You have unsaved changes. Are you sure you want to close?''"

text \<open>\<open>confirm_close\<close>: the dialog is shown; the user's answer is the caller's input.\<close>

definition confirm_close :: "editor \<Rightarrow> editor" where
  "confirm_close s = s\<lparr>trace := trace s @ [gate]\<rparr>"

text \<open>
  \<open>notebook.forget\<close> of the selected tab: the tab leaves the notebook and the notebook
  selects the tab that followed it, or the one before it when it was the last.
\<close>

definition forget :: "editor \<Rightarrow> editor" where
  "forget s =
     (let i = current s;
          ts = take i (tabs s) @ drop (Suc i) (tabs s)
      in s\<lparr>tabs := ts, current := (if i < length ts then i else length ts - 1)\<rparr>)"

definition close_current_tab :: "(string \<Rightarrow> int) \<Rightarrow> bool \<Rightarrow> editor \<Rightarrow> py_error + editor" where
  "close_current_tab h answer s =
     (case is_current_tab_unsaved h s of
        Inl e \<Rightarrow> Inl e
      | Inr unsaved \<Rightarrow>
          (let s1 = (if unsaved then confirm_close s else s) in
           if unsaved \<and> \<not> answer then Inr s1
           else
             (let s2 = forget s1 in
              if length (tabs s2) = 0 then Inr (create_file h [] ''Untitled'' s2)
              else Inr s2)))"

text \<open>\<open>self.notebook.tab('current', text=...)\<close>.\<close>

definition set_label :: "string \<Rightarrow> editor \<Rightarrow> editor" where
  "set_label l s = s\<lparr>tabs := (tabs s)[current s := (tabs s ! current s)\<lparr>label := l\<rparr>]\<rparr>"

text \<open>
  \<open>check_for_changes\<close>: \<open>tab_label[-1]\<close> raises IndexError on an empty label;
  \<open>tab_label[:-1]\<close> drops the last character.
\<close>

definition check_for_changes :: "(string \<Rightarrow> int) \<Rightarrow> editor \<Rightarrow> py_error + editor" where
  "check_for_changes h s =
     (case get_text_area s of
        Inl e \<Rightarrow> Inl e
      | Inr t \<Rightarrow>
          (case hash_differs h (text_contents s) t of
             Inl e \<Rightarrow> Inl e
           | Inr changed \<Rightarrow>
               if label t = [] then Inl IndexError
               else if changed then
                 (if last (label t) \<noteq> CHR ''*'' then Inr (set_label (label t @ ''*'') s)
                  else Inr s)
               else
                 (if last (label t) = CHR ''*'' then Inr (set_label (butlast (label t)) s)
                  else Inr s)))"

text \<open>
  \<open>save_file\<close>, with the path the save dialog returned: the machine afterwards, and
  the exception that leaves the method or the editor it leaves. The label and the stored
  hash are set after the \<open>try\<close> block only.
\<close>

definition save_file ::
  "(string \<Rightarrow> int) \<Rightarrow> string \<Rightarrow> world \<Rightarrow> editor \<Rightarrow> world \<times> (py_error + editor)" where
  "save_file h file_path w s =
     (let filename = basename file_path;
          cancelled = Inr (s\<lparr>trace := trace s @ [Print ''Save Operation Cancelled.'']\<rparr>)
      in case get_text_area s of
           Inl e \<Rightarrow> (w, if caught e then cancelled else Inl e)
         | Inr text_area \<Rightarrow>
             (let content = buffer text_area in
              case py_write w file_path content of
                (w', Some e) \<Rightarrow> (w', if caught e then cancelled else Inl e)
              | (w', None) \<Rightarrow>
                  (w', Inr ((set_label filename s)
                         \<lparr>text_contents := (text_contents s)(widget text_area \<mapsto> h content)\<rparr>))))"

text \<open>\<open>open_file\<close>, with the path the open dialog returned.\<close>

definition open_file ::
  "(string \<Rightarrow> int) \<Rightarrow> string \<Rightarrow> world \<Rightarrow> editor \<Rightarrow> py_error + editor" where
  "open_file h file_path w s =
     (let filename = basename file_path in
      case py_read w file_path of
        Inl e \<Rightarrow>
          (if caught e then Inr (s\<lparr>trace := trace s @ [Print ''Open Operation Cancelled.'']\<rparr>)
           else Inl e)
      | Inr content \<Rightarrow> Inr (create_file h content filename s))"

text \<open>
  The loop of \<open>confirm_quit\<close> over \<open>notebook.tabs()\<close>, which breaks at the first tab
  whose hash differs.
\<close>

fun any_unsaved :: "(string \<Rightarrow> int) \<Rightarrow> (nat \<rightharpoonup> int) \<Rightarrow> tab list \<Rightarrow> py_error + bool" where
  "any_unsaved h tc [] = Inr False"
| "any_unsaved h tc (t # ts) =
     (case hash_differs h tc t of
        Inl e \<Rightarrow> Inl e
      | Inr changed \<Rightarrow> if changed then Inr True else any_unsaved h tc ts)"

text \<open>\<open>self.destroy()\<close>: the window is gone and \<open>mainloop\<close> returns.\<close>

definition destroy :: "editor \<Rightarrow> editor" where
  "destroy s = s\<lparr>alive := False\<rparr>"

definition confirm_quit :: "(string \<Rightarrow> int) \<Rightarrow> bool \<Rightarrow> editor \<Rightarrow> py_error + editor" where
  "confirm_quit h answer s =
     (case any_unsaved h (text_contents s) (tabs s) of
        Inl e \<Rightarrow> Inl e
      | Inr unsaved \<Rightarrow>
          (let s1 = (if unsaved then confirm_close s else s) in
           if unsaved \<and> \<not> answer then Inr s1 else Inr (destroy s1)))"

definition show_about_info :: "editor \<Rightarrow> editor" where
  "show_about_info s =
     s\<lparr>trace := trace s @ [ShowInfo ''About'' ''This is a text editor created by Tkinter'']\<rparr>"

text \<open>
  \<open>__init__\<close>: the dictionary is the argument when it is given and not empty, the
  notebook starts empty, and the first default tab is created.
\<close>

definition init :: "(string \<Rightarrow> int) \<Rightarrow> (nat \<rightharpoonup> int) \<Rightarrow> editor" where
  "init h tc =
     create_file h [] ''Untitled''
       \<lparr>tabs = [], current = 0, text_contents = tc, next_id = 0, alive = True, trace = []\<rparr>"

subsection \<open>The event loop\<close>

text \<open>
  The text widget's own key bindings change the text of the selected tab; the window's
  \<open><KeyPress>\<close> binding runs \<open>check_for_changes\<close> after them.
\<close>

definition edit :: "string \<Rightarrow> editor \<Rightarrow> editor" where
  "edit txt s = s\<lparr>tabs := (tabs s)[current s := (tabs s ! current s)\<lparr>buffer := txt\<rparr>]\<rparr>"

text \<open>
  The menu entries and key bindings of \<open>__init__\<close>, each with what the user supplies:
  the path a file dialog returns (empty when it is cancelled), the answer to the yes/no
  dialog, the text of the selected tab after a key press.
\<close>

datatype command =
  New | Open string | Save string | CloseTab bool | Exit bool | About | Key string

text \<open>
  One callback of \<open>mainloop\<close>. An exception that leaves a callback is reported by Tk
  and the loop goes on; after \<open>destroy\<close> no callback runs.
\<close>

fun step :: "(string \<Rightarrow> int) \<Rightarrow> command \<Rightarrow> world \<times> editor \<Rightarrow> world \<times> editor" where
  "step h c (w, s) =
     (if \<not> alive s then (w, s)
      else case c of
        New \<Rightarrow> (w, create_file h [] ''Untitled'' s)
      | Open p \<Rightarrow> (case open_file h p w s of Inl e \<Rightarrow> (w, s) | Inr s' \<Rightarrow> (w, s'))
      | Save p \<Rightarrow>
          (case save_file h p w s of (w', Inl e) \<Rightarrow> (w', s) | (w', Inr s') \<Rightarrow> (w', s'))
      | CloseTab a \<Rightarrow> (case close_current_tab h a s of Inl e \<Rightarrow> (w, s) | Inr s' \<Rightarrow> (w, s'))
      | Exit a \<Rightarrow> (case confirm_quit h a s of Inl e \<Rightarrow> (w, s) | Inr s' \<Rightarrow> (w, s'))
      | About \<Rightarrow> (w, show_about_info s)
      | Key txt \<Rightarrow>
          (case check_for_changes h (edit txt s) of
             Inl e \<Rightarrow> (w, edit txt s)
           | Inr s' \<Rightarrow> (w, s')))"

fun run :: "(string \<Rightarrow> int) \<Rightarrow> command list \<Rightarrow> world \<times> editor \<Rightarrow> world \<times> editor" where
  "run h [] st = st"
| "run h (c # cs) st = run h cs (step h c st)"

subsection \<open>Tabs with unsaved changes\<close>

text \<open>The tabs whose text does not hash to the stored value.\<close>

definition dirty_tabs :: "(string \<Rightarrow> int) \<Rightarrow> editor \<Rightarrow> tab list" where
  "dirty_tabs h s = filter (\<lambda>t. text_contents s (widget t) \<noteq> Some (h (buffer t))) (tabs s)"

text \<open>Every tab of the notebook has its entry in the dictionary.\<close>

definition keyed :: "editor \<Rightarrow> bool" where
  "keyed s = list_all (\<lambda>t. text_contents s (widget t) \<noteq> None) (tabs s)"

subsection \<open>A concrete run\<close>

text \<open>
  A hash function to run the methods with (any function from strings to integers can
  stand for Python's), and a POSIX machine with no files whose encoding represents every
  text.
\<close>

definition poly_hash :: "string \<Rightarrow> int" where
  "poly_hash s = foldl (\<lambda>a c. 31 * a + of_char c) 0 s"

definition posix_world :: world where
  "posix_world =
     \<lparr>files = Map.empty, read_faults = Map.empty, write_faults = Map.empty,
      late_faults = Map.empty, sinks = {}, encode = Some, decode = Some, linesep = [LF]\<rparr>"

definition fresh :: editor where
  "fresh = init poly_hash Map.empty"

text \<open>
  States the run below passes through: the first tab after the user typed \<open>hello\<close>;
  two tabs, both edited since they were created; a machine that holds two files whose
  names end in asterisks, and the tabs that opening them creates.
\<close>

definition typed_hello :: editor where
  "typed_hello = edit ''hello'' fresh"

definition two_dirty :: editor where
  "two_dirty = edit ''b'' (create_file poly_hash [] ''Untitled'' (edit ''a'' fresh))"

definition star_world :: world where
  "star_world = posix_world\<lparr>files := [''/tmp/note*'' \<mapsto> ''x'', ''/tmp/a**'' \<mapsto> ''x'']\<rparr>"

definition star_tab :: editor where
  "star_tab = create_file poly_hash ''x'' ''note*'' fresh"

definition two_star_tab :: editor where
  "two_star_tab = create_file poly_hash ''x'' ''a**'' fresh"

text \<open>
  A machine on which a path cannot be written for its missing directory, another can be
  neither read nor written, and a third is on a disk that is full after three characters; a tab whose text holds a carriage return, and the state
  and the files after it is saved; a machine with two files of the same name and text in
  two directories; a machine with a device that keeps nothing; a machine whose encoding
  is ASCII, and a tab whose text ASCII cannot represent.
\<close>

definition locked_world :: world where
  "locked_world =
     posix_world\<lparr>read_faults := [''/etc/shadow'' \<mapsto> OSError],
                 write_faults := [''/nodir/a.txt'' \<mapsto> FileNotFoundError,
                                  ''/etc/shadow'' \<mapsto> OSError],
                 late_faults := [''/full/a.txt'' \<mapsto> (OSError, 3)]\<rparr>"

definition null_world :: world where
  "null_world = posix_world\<lparr>files := [''/dev/null'' \<mapsto> []], sinks := {''/dev/null''}\<rparr>"

definition ascii_codec :: "string \<Rightarrow> string option" where
  "ascii_codec text = (if list_all (\<lambda>c. of_char c < (128 :: nat)) text then Some text else None)"

definition ascii_world :: world where
  "ascii_world = posix_world\<lparr>encode := ascii_codec, decode := ascii_codec\<rparr>"

definition accent_tab :: editor where
  "accent_tab = edit [CHR ''c'', CHR ''a'', CHR ''f'', CHR 0xE9] fresh"

definition cr_tab :: editor where
  "cr_tab = edit [CHR ''a'', CR, CHR ''b''] fresh"

definition cr_world :: world where
  "cr_world = posix_world\<lparr>files := [''/tmp/f.txt'' \<mapsto> [CHR ''a'', CR, CHR ''b'']]\<rparr>"

definition cr_saved :: editor where
  "cr_saved = (set_label ''f.txt'' cr_tab)
     \<lparr>text_contents := (text_contents cr_tab)(0 \<mapsto> poly_hash [CHR ''a'', CR, CHR ''b''])\<rparr>"

definition twin_world :: world where
  "twin_world = posix_world\<lparr>files := [''/a/x.txt'' \<mapsto> ''same'', ''/b/x.txt'' \<mapsto> ''same'']\<rparr>"

section \<open>Properties\<close>

subsection \<open>Auxiliary facts\<close>

lemma set_label_same:
  "current s < length (tabs s) \<Longrightarrow> set_label (label (tabs s ! current s)) s = s"
  by (simp add: set_label_def)

lemma any_unsaved_dirty:
  "list_all (\<lambda>t. tc (widget t) \<noteq> None) ts \<Longrightarrow>
   any_unsaved h tc ts = Inr (filter (\<lambda>t. tc (widget t) \<noteq> Some (h (buffer t))) ts \<noteq> [])"
  by (induction ts) (auto simp: hash_differs_def)

lemma un_keep: "c \<noteq> CR \<Longrightarrow> universal_newlines (c # cs) = c # universal_newlines cs"
  by (cases cs) simp_all

lemma un_id: "CR \<notin> set cs \<Longrightarrow> universal_newlines cs = cs"
proof (induction cs)
  case Nil
  show ?case by simp
next
  case (Cons a cs)
  then have "a \<noteq> CR" and "universal_newlines cs = cs" by auto
  then show ?case by (simp add: un_keep)
qed

lemma wn_lf: "write_newlines [LF] cs = cs"
  by (induction cs) (simp_all add: write_newlines_def)

lemma roundtrip_crlf: "CR \<notin> set cs \<Longrightarrow> universal_newlines (write_newlines [CR, LF] cs) = cs"
proof (induction cs)
  case Nil
  show ?case by (simp add: write_newlines_def)
next
  case (Cons a cs)
  then have a: "a \<noteq> CR" and ih: "universal_newlines (write_newlines [CR, LF] cs) = cs"
    by auto
  have step: "write_newlines [CR, LF] (a # cs) =
      (if a = LF then [CR, LF] else [a]) @ write_newlines [CR, LF] cs"
    by (simp add: write_newlines_def)
  show ?case
  proof (cases "a = LF")
    case True
    then show ?thesis using ih step by simp
  next
    case False
    then show ?thesis using ih step a by (simp add: un_keep)
  qed
qed

lemma newline_roundtrip:
  "CR \<notin> set cs \<Longrightarrow> sep = [LF] \<or> sep = [CR, LF] \<Longrightarrow>
   universal_newlines (write_newlines sep cs) = cs"
  using roundtrip_crlf un_id wn_lf by auto

lemma read_after_write:
  assumes wr: "py_write w path c = (w', None)"
    and reg: "path \<notin> sinks w"
    and rd: "read_faults w path = None"
    and rt: "round_trips w (write_newlines (linesep w) c)"
  shows "py_read w' path = Inr (universal_newlines (write_newlines (linesep w) c))"
  using assms
  by (auto simp add: py_write_def py_read_def store_def round_trips_def
      split: if_splits option.splits)

lemma length_forget:
  "current s < length (tabs s) \<Longrightarrow> length (tabs (forget s)) = length (tabs s) - 1"
  by (auto simp add: forget_def Let_def)

lemma current_forget:
  "current s < length (tabs s) \<Longrightarrow> 1 < length (tabs s) \<Longrightarrow>
   current (forget s) < length (tabs (forget s))"
  by (auto simp add: forget_def Let_def)

lemma check_stable:
  assumes cur: "current s < length (tabs s)"
    and key: "text_contents s (widget (tabs s ! current s)) = Some fp"
    and l: "label (tabs s ! current s) \<noteq> []"
    and st: "(last (label (tabs s ! current s)) = CHR ''*'') = (h (buffer (tabs s ! current s)) \<noteq> fp)"
  shows "check_for_changes h s = Inr s"
  using assms by (auto simp add: check_for_changes_def get_text_area_def hash_differs_def)

lemma dom_create_file:
  "dom (text_contents (create_file h c t s)) = insert (next_id s) (dom (text_contents s))"
  by (simp add: create_file_def)

lemma dom_close_current_tab:
  "close_current_tab h a s = Inr s' \<Longrightarrow> dom (text_contents s) \<subseteq> dom (text_contents s')"
  by (auto simp add: close_current_tab_def confirm_close_def forget_def create_file_def Let_def
      split: sum.splits if_splits)

lemma dom_open_file:
  "open_file h p w s = Inr s' \<Longrightarrow> dom (text_contents s) \<subseteq> dom (text_contents s')"
  by (auto simp add: open_file_def create_file_def split: sum.splits if_splits)

lemma dom_save_file:
  "save_file h p w s = (w', Inr s') \<Longrightarrow> dom (text_contents s) \<subseteq> dom (text_contents s')"
  by (auto simp add: save_file_def set_label_def Let_def
      split: sum.splits if_splits prod.splits option.splits)

lemma dom_check_for_changes:
  "check_for_changes h s = Inr s' \<Longrightarrow> text_contents s' = text_contents s"
  by (auto simp add: check_for_changes_def set_label_def split: sum.splits if_splits)

lemma dom_confirm_quit:
  "confirm_quit h a s = Inr s' \<Longrightarrow> text_contents s' = text_contents s"
  by (auto simp add: confirm_quit_def confirm_close_def destroy_def Let_def
      split: sum.splits if_splits)

lemma dom_step:
  "dom (text_contents (snd st)) \<subseteq> dom (text_contents (snd (step h c st)))"
proof (cases st)
  case (Pair w s)
  show ?thesis
  proof (cases c)
    case New
    then show ?thesis using Pair by (auto simp add: dom_create_file)
  next
    case (Open p)
    then show ?thesis using Pair dom_open_file [of h p w s]
      by (auto split: sum.splits)
  next
    case (Save p)
    then show ?thesis using Pair dom_save_file [of h p w s]
      by (auto split: sum.splits prod.splits)
  next
    case (CloseTab a)
    then show ?thesis using Pair dom_close_current_tab [of h a s]
      by (auto split: sum.splits)
  next
    case (Exit a)
    then show ?thesis using Pair dom_confirm_quit [of h a s]
      by (auto split: sum.splits)
  next
    case About
    then show ?thesis using Pair by (simp add: show_about_info_def)
  next
    case (Key x)
    then show ?thesis using Pair dom_check_for_changes [of h "edit x s"]
      by (auto simp add: edit_def split: sum.splits)
  qed
qed

lemma dom_run:
  "dom (text_contents (snd st)) \<subseteq> dom (text_contents (snd (run h cs st)))"
proof (induction cs arbitrary: st)
  case Nil
  show ?case by simp
next
  case (Cons c cs)
  have "dom (text_contents (snd st)) \<subseteq> dom (text_contents (snd (step h c st)))"
    by (rule dom_step)
  also have "\<dots> \<subseteq> dom (text_contents (snd (run h cs (step h c st))))"
    by (rule Cons.IH)
  finally show ?case by simp
qed

subsection \<open>Save\<close>

text \<open>
  C1. Whatever tab is selected and whatever path is chosen, when the write succeeds
  \<open>save_file\<close> returns, and in the state it leaves the tab that was selected is still
  selected, has its text as before and the base name of the path as its label, and the
  hash stored for it is the hash of the text that was written, so that it is not
  unsaved; every other tab, every other entry of the dictionary, and the rest of the
  state are what they were.
\<close>

theorem save_file_success:
  assumes cur: "current s < length (tabs s)"
    and wr: "py_write w path (buffer (tabs s ! current s)) = (w', None)"
  shows "\<exists>s'. save_file h path w s = (w', Inr s')
           \<and> tabs s' = (tabs s)[current s := (tabs s ! current s)\<lparr>label := basename path\<rparr>]
           \<and> current s' = current s
           \<and> text_contents s' =
               (text_contents s)(widget (tabs s ! current s) \<mapsto> h (buffer (tabs s ! current s)))
           \<and> next_id s' = next_id s \<and> alive s' = alive s \<and> trace s' = trace s
           \<and> is_current_tab_unsaved h s' = Inr False
           \<and> label (tabs s' ! current s') = basename path
           \<and> buffer (tabs s' ! current s') = buffer (tabs s ! current s)"
  using cur wr
  by (simp add: save_file_def get_text_area_def is_current_tab_unsaved_def
      hash_differs_def set_label_def)

theorem save_file_success_witness:
  "\<exists>s'. save_file poly_hash ''/home/u/note.txt'' posix_world two_dirty
           = (posix_world\<lparr>files := [''/home/u/note.txt'' \<mapsto> ''b'']\<rparr>, Inr s')
        \<and> tabs s' = [\<lparr>widget = 0, label = ''Untitled'', buffer = ''a''\<rparr>,
                      \<lparr>widget = 1, label = ''note.txt'', buffer = ''b''\<rparr>]
        \<and> current s' = 1
        \<and> text_contents s' = (text_contents two_dirty)(1 \<mapsto> poly_hash ''b'')
        \<and> is_current_tab_unsaved poly_hash s' = Inr False"
  using save_file_success [of two_dirty posix_world "''/home/u/note.txt''"
      "posix_world\<lparr>files := [''/home/u/note.txt'' \<mapsto> ''b'']\<rparr>" poly_hash]
  by (auto simp add: two_dirty_def fresh_def edit_def init_def create_file_def posix_world_def
      py_write_def store_def write_newlines_def basename_def)

subsection \<open>Exit\<close>

text \<open>
  C2. When every tab has its dictionary entry, \<open>confirm_quit\<close> returns; the yes/no
  dialog is shown once when some tab of the notebook is unsaved and not at all when none
  is; the window is destroyed unless a tab is unsaved and the answer is no; and the
  tabs, the selection and the dictionary are what they were.
\<close>

theorem confirm_quit_gate_once:
  assumes "keyed s"
  shows "\<exists>s'. confirm_quit h answer s = Inr s'
           \<and> trace s' = trace s @ (if dirty_tabs h s = [] then [] else [gate])
           \<and> alive s' = (alive s \<and> dirty_tabs h s \<noteq> [] \<and> \<not> answer)
           \<and> tabs s' = tabs s \<and> current s' = current s
           \<and> text_contents s' = text_contents s \<and> next_id s' = next_id s"
proof -
  have "any_unsaved h (text_contents s) (tabs s) = Inr (dirty_tabs h s \<noteq> [])"
    using assms any_unsaved_dirty [of "text_contents s" "tabs s" h]
    unfolding keyed_def dirty_tabs_def by blast
  then show ?thesis
    by (simp add: confirm_quit_def confirm_close_def destroy_def Let_def)
qed

theorem confirm_quit_gate_once_witness:
  "length (dirty_tabs poly_hash two_dirty) = 2
   \<and> (\<exists>s'. confirm_quit poly_hash False two_dirty = Inr s'
         \<and> trace s' = [gate] \<and> alive s'
         \<and> tabs s' = tabs two_dirty \<and> current s' = current two_dirty
         \<and> text_contents s' = text_contents two_dirty)"
  using confirm_quit_gate_once [of two_dirty poly_hash False]
  by (auto simp add: two_dirty_def fresh_def init_def create_file_def edit_def keyed_def
      dirty_tabs_def poly_hash_def)

subsection \<open>The change check\<close>

text \<open>
  C3 (as amended). Let the selected tab have its dictionary entry, and let its label be
  a name that is not empty and does not end in an asterisk, with or without one
  asterisk after it. Then \<open>check_for_changes\<close> returns, and the label afterwards is that
  name followed by an asterisk when the text does not hash to the stored value, and the
  name alone when it does; nothing else changes. The asterisk is kept in the label
  itself, and the last character of the label is what the method tests.
\<close>

theorem check_for_changes_marker:
  assumes cur: "current s < length (tabs s)"
    and key: "text_contents s (widget (tabs s ! current s)) = Some fp"
    and base: "base \<noteq> []" "last base \<noteq> CHR ''*''"
    and shown: "label (tabs s ! current s) = base \<or> label (tabs s ! current s) = base @ ''*''"
  shows "check_for_changes h s =
           Inr (set_label (if h (buffer (tabs s ! current s)) \<noteq> fp then base @ ''*'' else base) s)"
proof -
  from shown show ?thesis
  proof
    assume l: "label (tabs s ! current s) = base"
    then have same: "set_label base s = s" using set_label_same [OF cur] by simp
    show ?thesis using cur key base l same
      by (simp add: check_for_changes_def get_text_area_def hash_differs_def)
  next
    assume l: "label (tabs s ! current s) = base @ ''*''"
    then have same: "set_label (base @ ''*'') s = s" using set_label_same [OF cur] by simp
    show ?thesis using cur key base l same
      by (simp add: check_for_changes_def get_text_area_def hash_differs_def)
  qed
qed

theorem check_for_changes_marker_witness:
  "check_for_changes poly_hash typed_hello = Inr (set_label ''Untitled*'' typed_hello)
   \<and> map label (tabs (set_label ''Untitled*'' typed_hello)) = [''Untitled*'']"
  using check_for_changes_marker [of typed_hello 0 "''Untitled''" poly_hash]
  by (simp add: typed_hello_def fresh_def init_def create_file_def edit_def poly_hash_def
      set_label_def)

text \<open>
  The claim as it was stated fails for a file whose name ends in an asterisk: opened
  and not edited, the tab \<open>note*\<close> is not unsaved, and the change check takes the last
  character of its name away.
\<close>

theorem check_for_changes_marker_counterexample:
  "open_file poly_hash ''/tmp/note*'' star_world fresh = Inr star_tab
   \<and> map label (tabs star_tab) = [''Untitled'', ''note*'']
   \<and> is_current_tab_unsaved poly_hash star_tab = Inr False
   \<and> check_for_changes poly_hash star_tab = Inr (set_label ''note'' star_tab)
   \<and> map label (tabs (set_label ''note'' star_tab)) = [''Untitled'', ''note'']"
  by (simp add: star_tab_def star_world_def posix_world_def fresh_def init_def create_file_def
      open_file_def py_read_def basename_def is_current_tab_unsaved_def get_text_area_def
      hash_differs_def check_for_changes_def set_label_def)

subsection \<open>Open on a path that cannot be read\<close>

text \<open>
  C4 (as amended). When the file cannot be read, \<open>open_file\<close> creates no tab and leaves
  the tabs, the selection and the dictionary as they were. A FileNotFoundError is caught
  and the method returns after printing \<open>Open Operation Cancelled.\<close>, as it does when the
  dialog is cancelled; any other exception leaves the method. No error is shown.
\<close>

theorem open_file_unreadable:
  assumes "py_read w path = Inl e"
  shows "open_file h path w s =
           (if e = FileNotFoundError \<or> e = AttributeError
            then Inr (s\<lparr>trace := trace s @ [Print ''Open Operation Cancelled.'']\<rparr>)
            else Inl e)"
  using assms by (auto simp add: open_file_def caught_def)

theorem open_file_unreadable_witness:
  "open_file poly_hash ''/etc/shadow'' locked_world fresh = Inl OSError
   \<and> open_file poly_hash ''/no/such.txt'' locked_world fresh
       = Inr (fresh\<lparr>trace := [Print ''Open Operation Cancelled.'']\<rparr>)"
  using open_file_unreadable [of locked_world "''/etc/shadow''" OSError poly_hash fresh]
    open_file_unreadable [of locked_world "''/no/such.txt''" FileNotFoundError poly_hash fresh]
  by (simp add: py_read_def locked_world_def posix_world_def fresh_def init_def create_file_def)

text \<open>
  The claim as it was stated fails on a path that does not exist: the method returns
  normally, the only effect is the line \<open>Open Operation Cancelled.\<close> on standard output,
  and the outcome is the one of a cancelled dialog.
\<close>

theorem open_file_unreadable_counterexample:
  "py_read posix_world ''/no/such.txt'' = Inl FileNotFoundError
   \<and> open_file poly_hash ''/no/such.txt'' posix_world fresh
       = Inr (fresh\<lparr>trace := [Print ''Open Operation Cancelled.'']\<rparr>)
   \<and> open_file poly_hash ''/no/such.txt'' posix_world fresh
       = open_file poly_hash [] posix_world fresh"
  by (simp add: py_read_def posix_world_def open_file_def caught_def fresh_def init_def
      create_file_def)

subsection \<open>Save on a path that cannot be written\<close>

text \<open>
  C5 (as amended). When the write fails, \<open>save_file\<close> leaves the label, the stored hash
  and the text of every tab as they were. A FileNotFoundError is caught and the method
  returns after printing \<open>Save Operation Cancelled.\<close>, as it does when the dialog is
  cancelled; any other exception leaves the method. No error is shown. (The file is what
  the failed write left of it: untouched when \<open>open\<close> raised, empty or partly written
  when the failure came later.)
\<close>

theorem save_file_write_fails:
  assumes cur: "current s < length (tabs s)"
    and wr: "py_write w path (buffer (tabs s ! current s)) = (w', Some e)"
  shows "save_file h path w s =
           (w', if e = FileNotFoundError \<or> e = AttributeError
                then Inr (s\<lparr>trace := trace s @ [Print ''Save Operation Cancelled.'']\<rparr>)
                else Inl e)"
  using assms by (auto simp add: save_file_def get_text_area_def caught_def)

theorem save_file_write_fails_witness:
  "save_file poly_hash ''/etc/shadow'' locked_world typed_hello = (locked_world, Inl OSError)
   \<and> save_file poly_hash ''/nodir/a.txt'' locked_world typed_hello
       = (locked_world, Inr (typed_hello\<lparr>trace := [Print ''Save Operation Cancelled.'']\<rparr>))
   \<and> save_file poly_hash ''/tmp/f.txt'' ascii_world accent_tab
       = (ascii_world\<lparr>files := [''/tmp/f.txt'' \<mapsto> []]\<rparr>, Inl UnicodeError)
   \<and> save_file poly_hash ''/full/a.txt'' locked_world typed_hello
       = (locked_world\<lparr>files := [''/full/a.txt'' \<mapsto> ''hel'']\<rparr>, Inl OSError)"
  using save_file_write_fails [of typed_hello locked_world "''/etc/shadow''" locked_world
      OSError poly_hash]
    save_file_write_fails [of typed_hello locked_world "''/nodir/a.txt''" locked_world
      FileNotFoundError poly_hash]
    save_file_write_fails [of accent_tab ascii_world "''/tmp/f.txt''"
      "ascii_world\<lparr>files := [''/tmp/f.txt'' \<mapsto> []]\<rparr>" UnicodeError poly_hash]
    save_file_write_fails [of typed_hello locked_world "''/full/a.txt''"
      "locked_world\<lparr>files := [''/full/a.txt'' \<mapsto> ''hel'']\<rparr>" OSError poly_hash]
  by (simp add: py_write_def store_def write_newlines_def locked_world_def ascii_world_def
      ascii_codec_def posix_world_def typed_hello_def accent_tab_def edit_def fresh_def
      init_def create_file_def)

text \<open>
  The claim as it was stated fails on a path whose directory is missing: the method
  returns normally, the only effect is the line \<open>Save Operation Cancelled.\<close> on standard
  output, and the outcome is the one of a cancelled dialog.
\<close>

theorem save_file_write_fails_counterexample:
  "py_write locked_world ''/nodir/a.txt'' ''hello'' = (locked_world, Some FileNotFoundError)
   \<and> save_file poly_hash ''/nodir/a.txt'' locked_world typed_hello
       = (locked_world, Inr (typed_hello\<lparr>trace := [Print ''Save Operation Cancelled.'']\<rparr>))
   \<and> save_file poly_hash ''/nodir/a.txt'' locked_world typed_hello
       = save_file poly_hash [] locked_world typed_hello"
  by (simp add: py_write_def locked_world_def posix_world_def save_file_def get_text_area_def
      caught_def typed_hello_def edit_def fresh_def init_def create_file_def)

subsection \<open>Close Tab\<close>

text \<open>
  C6. With a tab selected that has its dictionary entry, \<open>close_current_tab\<close> returns a
  state whose notebook is not empty and has a tab selected. When the tab is unsaved and
  the answer is no, the tabs are what they were. Otherwise, when it was the only tab, the
  notebook holds exactly one tab afterwards, the new default tab (\<open>Untitled\<close>, empty,
  not unsaved); and when it was not, the notebook has one tab less.
\<close>

theorem close_last_tab:
  assumes cur: "current s < length (tabs s)"
    and key: "text_contents s (widget (tabs s ! current s)) = Some fp"
  shows "\<exists>s'. close_current_tab h answer s = Inr s'
           \<and> tabs s' \<noteq> [] \<and> current s' < length (tabs s')
           \<and> (if h (buffer (tabs s ! current s)) \<noteq> fp \<and> \<not> answer
               then tabs s' = tabs s
               else if length (tabs s) = 1
               then tabs s' = [\<lparr>widget = next_id s, label = ''Untitled'', buffer = []\<rparr>]
                    \<and> is_current_tab_unsaved h s' = Inr False
               else length (tabs s') = length (tabs s) - 1)"
proof -
  let ?dirty = "h (buffer (tabs s ! current s)) \<noteq> fp"
  let ?s1 = "if ?dirty then confirm_close s else s"
  have unsaved: "is_current_tab_unsaved h s = Inr ?dirty"
    using cur key by (simp add: is_current_tab_unsaved_def get_text_area_def hash_differs_def)
  have s1: "tabs ?s1 = tabs s" "current ?s1 = current s" "next_id ?s1 = next_id s"
    by (simp_all add: confirm_close_def)
  show ?thesis
  proof (cases "?dirty \<and> \<not> answer")
    case True
    then have "close_current_tab h answer s = Inr (confirm_close s)"
      using unsaved by (simp add: close_current_tab_def)
    then show ?thesis using True cur by (auto simp add: confirm_close_def)
  next
    case False
    show ?thesis
    proof (cases "length (tabs s) = 1")
      case True
      then have empty: "tabs (forget ?s1) = []"
        using length_forget [of ?s1] cur s1 by simp
      have nid: "next_id (forget ?s1) = next_id s"
        using s1 by (simp add: forget_def Let_def)
      have "close_current_tab h answer s = Inr (create_file h [] ''Untitled'' (forget ?s1))"
        using unsaved False empty by (auto simp add: close_current_tab_def Let_def)
      then show ?thesis using False True empty nid
        by (auto simp add: create_file_def is_current_tab_unsaved_def get_text_area_def
            hash_differs_def)
    next
      case more: False
      then have gt: "1 < length (tabs ?s1)" using cur s1 by auto
      have c1: "current ?s1 < length (tabs ?s1)" using cur s1 by simp
      have len: "length (tabs (forget ?s1)) = length (tabs s) - 1"
        using length_forget [OF c1] s1 by simp
      then have ne: "tabs (forget ?s1) \<noteq> []" using gt s1 by auto
      have "close_current_tab h answer s = Inr (forget ?s1)"
        using unsaved False ne by (auto simp add: close_current_tab_def Let_def)
      then show ?thesis using False more len ne current_forget [OF c1 gt] by auto
    qed
  qed
qed

theorem close_last_tab_witness:
  "\<exists>s'. close_current_tab poly_hash True typed_hello = Inr s'
        \<and> tabs s' = [\<lparr>widget = 1, label = ''Untitled'', buffer = []\<rparr>]
        \<and> current s' = 0
        \<and> is_current_tab_unsaved poly_hash s' = Inr False"
  using close_last_tab [of typed_hello 0 poly_hash True]
  by (auto simp add: typed_hello_def edit_def fresh_def init_def create_file_def poly_hash_def)

subsection \<open>The change check, twice\<close>

text \<open>
  C7 (as amended). Let the selected tab have its dictionary entry and a label that is not
  empty, and let the tab be unsaved, or its label not end in an asterisk, or its label
  end in one asterisk that follows a character other than an asterisk. Then
  \<open>check_for_changes\<close> returns a state on which a second call changes nothing; in
  particular an unsaved tab never gets a second asterisk.
\<close>

theorem check_for_changes_idempotent:
  assumes cur: "current s < length (tabs s)"
    and key: "text_contents s (widget (tabs s ! current s)) = Some fp"
    and l: "label (tabs s ! current s) \<noteq> []"
    and ok: "h (buffer (tabs s ! current s)) \<noteq> fp
             \<or> last (label (tabs s ! current s)) \<noteq> CHR ''*''
             \<or> (butlast (label (tabs s ! current s)) \<noteq> []
                 \<and> last (butlast (label (tabs s ! current s))) \<noteq> CHR ''*'')"
  shows "\<exists>s1. check_for_changes h s = Inr s1 \<and> check_for_changes h s1 = Inr s1"
proof -
  let ?t = "tabs s ! current s"
  let ?dirty = "h (buffer ?t) \<noteq> fp"
  let ?star = "last (label ?t) = CHR ''*''"
  have after: "\<And>l'. l' \<noteq> [] \<Longrightarrow> (last l' = CHR ''*'') = ?dirty \<Longrightarrow>
      check_for_changes h (set_label l' s) = Inr (set_label l' s)"
  proof -
    fix l' :: string
    assume "l' \<noteq> []" and "(last l' = CHR ''*'') = ?dirty"
    then show "check_for_changes h (set_label l' s) = Inr (set_label l' s)"
      using cur key by (intro check_stable [where fp = fp]) (simp_all add: set_label_def)
  qed
  show ?thesis
  proof (cases "?star = ?dirty")
    case True
    then have "check_for_changes h s = Inr s" using check_stable [OF cur key l] by simp
    then show ?thesis by simp
  next
    case False
    show ?thesis
    proof (cases ?dirty)
      case True
      with False have ns: "\<not> ?star" by simp
      have first: "check_for_changes h s = Inr (set_label (label ?t @ ''*'') s)"
        using cur key l True ns
        by (simp add: check_for_changes_def get_text_area_def hash_differs_def)
      have "check_for_changes h (set_label (label ?t @ ''*'') s)
              = Inr (set_label (label ?t @ ''*'') s)"
        using True by (intro after) simp_all
      with first show ?thesis by simp
    next
      case clean: False
      with False have star: ?star by simp
      with clean ok have b: "butlast (label ?t) \<noteq> []" "last (butlast (label ?t)) \<noteq> CHR ''*''"
        by auto
      have first: "check_for_changes h s = Inr (set_label (butlast (label ?t)) s)"
        using cur key l clean star
        by (simp add: check_for_changes_def get_text_area_def hash_differs_def)
      have "check_for_changes h (set_label (butlast (label ?t)) s)
              = Inr (set_label (butlast (label ?t)) s)"
        using clean b by (intro after) simp_all
      with first show ?thesis by simp
    qed
  qed
qed

theorem check_for_changes_idempotent_witness:
  "\<exists>s1. check_for_changes poly_hash typed_hello = Inr s1
        \<and> check_for_changes poly_hash s1 = Inr s1"
  using check_for_changes_idempotent [of typed_hello 0 poly_hash]
  by (simp add: typed_hello_def edit_def fresh_def init_def create_file_def poly_hash_def)

text \<open>
  The claim as it was stated fails for a file whose name ends in two asterisks: opened
  and not edited, the tab \<open>a**\<close> loses one asterisk at the first call and another one at
  the second.
\<close>

theorem check_for_changes_idempotent_counterexample:
  "open_file poly_hash ''/tmp/a**'' star_world fresh = Inr two_star_tab
   \<and> check_for_changes poly_hash two_star_tab = Inr (set_label ''a*'' two_star_tab)
   \<and> check_for_changes poly_hash (set_label ''a*'' two_star_tab)
       = Inr (set_label ''a'' two_star_tab)
   \<and> map label (tabs (set_label ''a*'' two_star_tab)) = [''Untitled'', ''a*'']
   \<and> map label (tabs (set_label ''a'' two_star_tab)) = [''Untitled'', ''a'']"
  by (simp add: two_star_tab_def star_world_def posix_world_def fresh_def init_def
      create_file_def open_file_def py_read_def basename_def get_text_area_def
      hash_differs_def check_for_changes_def set_label_def)

subsection \<open>Save, then Open\<close>

text \<open>
  C8 (as amended). Let the text of the selected tab hold no carriage return, let
  \<open>os.linesep\<close> be a line feed or a carriage return and a line feed, let the platform's
  encoding give the written text back, and let the path be no device and be readable.
  Then a successful \<open>save_file\<close> to the path followed by reading that path gives the
  text back exactly, and \<open>open_file\<close> on that path creates a tab with exactly that text.
  (The file itself holds the encoded text with every line feed written as
  \<open>os.linesep\<close>.)
\<close>

theorem save_then_open_roundtrip:
  assumes cur: "current s < length (tabs s)"
    and wr: "py_write w path (buffer (tabs s ! current s)) = (w', None)"
    and nocr: "CR \<notin> set (buffer (tabs s ! current s))"
    and sep: "linesep w = [LF] \<or> linesep w = [CR, LF]"
    and codec: "round_trips w (write_newlines (linesep w) (buffer (tabs s ! current s)))"
    and reg: "path \<notin> sinks w"
    and rd: "read_faults w path = None"
  shows "\<exists>s1. save_file h path w s = (w', Inr s1)
           \<and> py_read w' path = Inr (buffer (tabs s ! current s))
           \<and> open_file h path w' s1
               = Inr (create_file h (buffer (tabs s ! current s)) (basename path) s1)"
proof -
  have rb: "py_read w' path = Inr (buffer (tabs s ! current s))"
    using read_after_write [OF wr reg rd codec] newline_roundtrip [OF nocr sep] by simp
  have "\<exists>s1. save_file h path w s = (w', Inr s1)"
    using cur wr by (simp add: save_file_def get_text_area_def)
  then show ?thesis using rb by (auto simp add: open_file_def)
qed

theorem save_then_open_roundtrip_witness:
  "\<exists>s1. save_file poly_hash ''/home/u/note.txt'' posix_world typed_hello
          = (posix_world\<lparr>files := [''/home/u/note.txt'' \<mapsto> ''hello'']\<rparr>, Inr s1)
        \<and> py_read (posix_world\<lparr>files := [''/home/u/note.txt'' \<mapsto> ''hello'']\<rparr>)
             ''/home/u/note.txt'' = Inr ''hello''
        \<and> open_file poly_hash ''/home/u/note.txt''
             (posix_world\<lparr>files := [''/home/u/note.txt'' \<mapsto> ''hello'']\<rparr>) s1
            = Inr (create_file poly_hash ''hello'' ''note.txt'' s1)"
  using save_then_open_roundtrip [of typed_hello posix_world "''/home/u/note.txt''"
      "posix_world\<lparr>files := [''/home/u/note.txt'' \<mapsto> ''hello'']\<rparr>" poly_hash]
  by (simp add: typed_hello_def fresh_def edit_def init_def create_file_def posix_world_def
      py_write_def store_def round_trips_def write_newlines_def basename_def)

text \<open>
  The claim as it was stated fails for a text with a carriage return: the file holds it,
  and reading the file in text mode gives a line feed in its place. It fails on a device
  too, which takes the text and gives nothing back, and for a text the encoding cannot
  represent, where the write raises and leaves the file empty.
\<close>

theorem save_then_open_roundtrip_counterexample:
  "save_file poly_hash ''/tmp/f.txt'' posix_world cr_tab = (cr_world, Inr cr_saved)
   \<and> map buffer (tabs cr_saved) = [[CHR ''a'', CR, CHR ''b'']]
   \<and> open_file poly_hash ''/tmp/f.txt'' cr_world cr_saved
       = Inr (create_file poly_hash [CHR ''a'', LF, CHR ''b''] ''f.txt'' cr_saved)
   \<and> map buffer (tabs (create_file poly_hash [CHR ''a'', LF, CHR ''b''] ''f.txt'' cr_saved))
       = [[CHR ''a'', CR, CHR ''b''], [CHR ''a'', LF, CHR ''b'']]
   \<and> py_write null_world ''/dev/null'' ''hello'' = (null_world, None)
   \<and> py_read null_world ''/dev/null'' = Inr []
   \<and> py_write ascii_world ''/tmp/f.txt'' [CHR ''c'', CHR ''a'', CHR ''f'', CHR 0xE9]
       = (ascii_world\<lparr>files := [''/tmp/f.txt'' \<mapsto> []]\<rparr>, Some UnicodeError)
   \<and> py_read (ascii_world\<lparr>files := [''/tmp/f.txt'' \<mapsto> []]\<rparr>) ''/tmp/f.txt'' = Inr []"
  by (simp add: cr_tab_def cr_world_def cr_saved_def posix_world_def null_world_def
      ascii_world_def ascii_codec_def fresh_def init_def create_file_def edit_def
      save_file_def open_file_def get_text_area_def py_write_def store_def py_read_def
      write_newlines_def basename_def set_label_def Let_def)

subsection \<open>Open\<close>

text \<open>
  C9 (as amended). When the file is read, \<open>open_file\<close> returns a state with one new tab
  at the end of the notebook, selected and not unsaved, whose text is the text read and
  whose label is the base name of the path; the hash of the text is stored under the new
  text area, and nothing else changes. The path itself is not kept: only its base name
  is, as the label.
\<close>

theorem open_file_creates_tab:
  assumes "py_read w path = Inr content"
  shows "\<exists>s'. open_file h path w s = Inr s'
           \<and> tabs s' = tabs s @ [\<lparr>widget = next_id s, label = basename path, buffer = content\<rparr>]
           \<and> current s' = length (tabs s)
           \<and> text_contents s' = (text_contents s)(next_id s \<mapsto> h content)
           \<and> next_id s' = Suc (next_id s)
           \<and> alive s' = alive s \<and> trace s' = trace s
           \<and> is_current_tab_unsaved h s' = Inr False"
  using assms
  by (simp add: open_file_def create_file_def is_current_tab_unsaved_def get_text_area_def
      hash_differs_def)

theorem open_file_creates_tab_witness:
  "\<exists>s'. open_file poly_hash ''/a/x.txt'' twin_world fresh = Inr s'
        \<and> tabs s' = [\<lparr>widget = 0, label = ''Untitled'', buffer = []\<rparr>,
                      \<lparr>widget = 1, label = ''x.txt'', buffer = ''same''\<rparr>]
        \<and> current s' = 1
        \<and> is_current_tab_unsaved poly_hash s' = Inr False"
  using open_file_creates_tab [of twin_world "''/a/x.txt''" "''same''" poly_hash fresh]
  by (auto simp add: twin_world_def posix_world_def py_read_def fresh_def init_def
      create_file_def basename_def)

text \<open>
  The claim as it was stated fails: two files of the same name and text in two
  directories give the same state, so the state does not tell which path was opened.
\<close>

theorem open_file_creates_tab_counterexample:
  "open_file poly_hash ''/a/x.txt'' twin_world fresh
     = Inr (create_file poly_hash ''same'' ''x.txt'' fresh)
   \<and> open_file poly_hash ''/b/x.txt'' twin_world fresh
     = Inr (create_file poly_hash ''same'' ''x.txt'' fresh)"
  by (simp add: twin_world_def posix_world_def py_read_def open_file_def basename_def)

subsection \<open>The dictionary\<close>

text \<open>
  C10. \<open>close_current_tab\<close> removes no key of \<open>text_contents\<close>; \<open>create_file\<close> adds
  the key of the text area it creates; and no callback, and so no sequence of callbacks,
  removes a key: the entries of closed tabs stay.
\<close>

theorem text_contents_never_shrinks:
  "(\<forall>s'. close_current_tab h a s = Inr s' \<longrightarrow>
          dom (text_contents s) \<subseteq> dom (text_contents s'))
   \<and> dom (text_contents (create_file h c t s)) = insert (next_id s) (dom (text_contents s))
   \<and> dom (text_contents (snd st)) \<subseteq> dom (text_contents (snd (step h cmd st)))
   \<and> dom (text_contents (snd st)) \<subseteq> dom (text_contents (snd (run h cs st)))"
  using dom_close_current_tab dom_create_file dom_step dom_run by blast

theorem text_contents_never_shrinks_witness:
  "close_current_tab poly_hash True typed_hello
     = Inr (create_file poly_hash [] ''Untitled'' (forget (confirm_close typed_hello)))
   \<and> map widget (tabs typed_hello) = [0]
   \<and> map widget (tabs (create_file poly_hash [] ''Untitled'' (forget (confirm_close typed_hello)))) = [1]
   \<and> dom (text_contents typed_hello) = {0}
   \<and> dom (text_contents (create_file poly_hash [] ''Untitled'' (forget (confirm_close typed_hello))))
       = {0, 1}"
  using text_contents_never_shrinks [of poly_hash True typed_hello "[]" "''Untitled''"
      "(posix_world, typed_hello)" "CloseTab True" "[CloseTab True]"]
  by (auto simp add: typed_hello_def edit_def fresh_def init_def create_file_def poly_hash_def
      close_current_tab_def is_current_tab_unsaved_def get_text_area_def hash_differs_def
      confirm_close_def forget_def Let_def)

end
